theory Spec2Isabelle
  imports Main
begin

section \<open>fix\_config.py: disabling problematic columns of a JSON configuration\<close>

text \<open>
  The script reads a JSON document, sets \<open>Enabled\<close> to false for a fixed set of
  (table, column) pairs and writes the document back to the same path. The embedding
  follows the source line by line: the values \<open>json.load\<close> produces are a datatype,
  Python dictionaries are association lists in insertion order, every exception the
  interpreter raises in \<open>fix_config\<close> is a constructor of \<open>error\<close>, the two loops
  are recursive functions, and the file system and standard output are an explicit state.
\<close>

subsection \<open>Values\<close>

text \<open>
  What \<open>json.load\<close> returns: \<open>None\<close>, \<open>bool\<close>, \<open>int\<close>, \<open>float\<close>, \<open>str\<close>,
  \<open>list\<close> and \<open>dict\<close>. The program never computes with a number, so a float is carried
  as its printed form, and a string is a list of characters that it only compares and
  concatenates. A \<open>dict\<close> keeps its keys in insertion order. The parser builds every
  list and dict afresh, so no two positions of a document share an object, and an in-place
  update of a nested dict is an update of the tree.
\<close>

datatype json =
    JNull
  | JBool bool
  | JInt int
  | JFloat string
  | JStr string
  | JArr "json list"
  | JObj "(string \<times> json) list"

type_synonym dict = "(string \<times> json) list"

datatype error =
    IOError            \<comment> \<open>\<open>OSError\<close>: \<open>FileNotFoundError\<close>, \<open>PermissionError\<close>\<close>
  | JSONDecodeError    \<comment> \<open>\<open>json.JSONDecodeError\<close>, the specification's \<open>ParseError\<close>\<close>
  | UnicodeDecodeError \<comment> \<open>reading bytes that are no text in the encoding of the locale\<close>
  | ValueError         \<comment> \<open>an integer literal beyond the interpreter's digit limit\<close>
  | RecursionError     \<comment> \<open>nesting beyond the interpreter's recursion limit\<close>
  | AttributeError     \<comment> \<open>\<open>.get\<close> on a value that is not a dict\<close>
  | TypeError          \<comment> \<open>iterating a value that is not iterable, hashing a list or dict\<close>

subsection \<open>The exclusion table (lines 9--24)\<close>

definition PROBLEMATIC_COLUMNS :: "(string \<times> string list) list" where
  "PROBLEMATIC_COLUMNS =
    [(''Production.WorkOrderRouting'', [''LocationID'']),
     (''Production.ProductModel'', [''CatalogDescription'']),
     (''Purchasing.ProductVendor'', [''LastReceiptCost'', ''LastReceiptDate'']),
     (''Person.StateProvince'', [''StateProvinceID'', ''IsOnlyStateProvinceFlag'']),
     (''Sales.SalesOrderDetail'', [''SalesOrderDetailID'']),
     (''Production.ProductInventory'', [''LocationID'']),
     (''Production.ProductDescription'', [''ProductDescriptionID'']),
     (''Production.ProductModelProductDescriptionCulture'', [''ProductDescriptionID'']),
     (''Purchasing.PurchaseOrderDetail'', [''PurchaseOrderDetailID'']),
     (''Sales.SalesPerson'', [''SalesLastYear'']),
     (''Sales.SalesTerritory'', [''SalesLastYear'', ''CostLastYear'']),
     (''Purchasing.ShipMethod'', [''ShipMethodID'', ''ShipBase'', ''ShipRate'']),
     (''Purchasing.PurchaseOrderHeader'', [''ShipMethodID'', ''ShipDate'']),
     (''Sales.SalesOrderHeader'', [''ShipDate'', ''ShipMethodID''])]"

subsection \<open>The Python operations the function uses\<close>

text \<open>\<open>d.get(k, default)\<close> on a dict.\<close>

definition dict_get :: "dict \<Rightarrow> string \<Rightarrow> json \<Rightarrow> json" where
  "dict_get d k dflt = (case map_of d k of Some v \<Rightarrow> v | None \<Rightarrow> dflt)"

text \<open>
  \<open>d[k] = v\<close> on a dict: an existing key keeps its position and takes the new value,
  a new key goes to the end.
\<close>

fun dict_set :: "dict \<Rightarrow> string \<Rightarrow> json \<Rightarrow> dict" where
  "dict_set [] k v = [(k, v)]"
| "dict_set ((k', v') # d) k v =
     (if k' = k then (k, v) # d else (k', v') # dict_set d k v)"

text \<open>
  \<open>for x in v\<close>: a list yields its elements, a dict its keys, a string its characters
  as one-character strings; any other value raises \<open>TypeError\<close>.
\<close>

fun py_iter :: "json \<Rightarrow> error + json list" where
  "py_iter (JArr xs) = Inr xs"
| "py_iter (JObj d) = Inr (map (\<lambda>kv. JStr (fst kv)) d)"
| "py_iter (JStr s) = Inr (map (\<lambda>c. JStr [c]) s)"
| "py_iter _ = Inl TypeError"

text \<open>\<open>str(n)\<close> for the count, as the f-string of line 49 formats it.\<close>

fun show_nat :: "nat \<Rightarrow> string" where
  "show_nat n =
     (if n < 10 then [''0123456789'' ! n]
      else show_nat (n div 10) @ [''0123456789'' ! (n mod 10)])"

declare show_nat.simps [simp del]

subsection \<open>The loops (lines 31--43)\<close>

text \<open>
  The local state of the loops: the counter and the lines printed so far. The lines stay
  printed when a later iteration raises.
\<close>

record progress =
  fixed_count :: nat
  printed :: "string list"

text \<open>
  Lines 39--43, the body of the inner loop, for one \<open>column\<close>. \<open>.get\<close> exists on
  a dict only: any other value raises \<open>AttributeError\<close>. \<open>col_name in problematic_cols\<close>
  compares with \<open>==\<close> against the strings of the list, which never raises, and only a
  string equals a string.
\<close>

definition column_body ::
  "string \<Rightarrow> string list \<Rightarrow> json \<Rightarrow> progress \<Rightarrow> (error + json) \<times> progress" where
  "column_body table_name problematic_cols column r =
     (case column of
        JObj c \<Rightarrow>
          (case dict_get c ''ColumnName'' (JStr '''') of
             JStr col_name \<Rightarrow>
               if col_name \<in> set problematic_cols
               then (Inr (JObj (dict_set c ''Enabled'' (JBool False))),
                     r\<lparr>printed := printed r @ [''Disabled '' @ table_name @ ''.'' @ col_name],
                       fixed_count := fixed_count r + 1\<rparr>)
               else (Inr column, r)
           | _ \<Rightarrow> (Inr column, r))
      | _ \<Rightarrow> (Inl AttributeError, r))"

text \<open>Line 38, the inner loop over the elements of the iterable.\<close>

fun column_loop ::
  "string \<Rightarrow> string list \<Rightarrow> json list \<Rightarrow> progress \<Rightarrow> (error + json list) \<times> progress" where
  "column_loop table_name problematic_cols [] r = (Inr [], r)"
| "column_loop table_name problematic_cols (column # rest) r =
     (case column_body table_name problematic_cols column r of
        (Inl e, r1) \<Rightarrow> (Inl e, r1)
      | (Inr column', r1) \<Rightarrow>
          (case column_loop table_name problematic_cols rest r1 of
             (Inl e, r2) \<Rightarrow> (Inl e, r2)
           | (Inr rest', r2) \<Rightarrow> (Inr (column' # rest'), r2)))"

text \<open>
  The loop updates the column dicts in place. The update is visible in the enclosing
  dict exactly when the iterable was its own list under the key: the elements of any other
  iterable are fresh strings (or there are none).
\<close>

definition store_back :: "dict \<Rightarrow> string \<Rightarrow> json list \<Rightarrow> dict" where
  "store_back d k xs' =
     (case map_of d k of Some (JArr xs) \<Rightarrow> dict_set d k (JArr xs') | _ \<Rightarrow> d)"

text \<open>
  Lines 34--43, the body of the outer loop, for one \<open>table\<close>.
  \<open>table_name in PROBLEMATIC_COLUMNS\<close> hashes the name: a list or a dict raises
  \<open>TypeError\<close>; a value of another type is hashable and is a key only when it is one of
  the strings. \<open>PROBLEMATIC_COLUMNS[table_name]\<close> is read only after the test succeeded.
\<close>

definition table_body :: "json \<Rightarrow> progress \<Rightarrow> (error + json) \<times> progress" where
  "table_body table r =
     (case table of
        JObj t \<Rightarrow>
          (case dict_get t ''TableName'' (JStr '''') of
             JArr _ \<Rightarrow> (Inl TypeError, r)
           | JObj _ \<Rightarrow> (Inl TypeError, r)
           | JStr table_name \<Rightarrow>
               (case map_of PROBLEMATIC_COLUMNS table_name of
                  None \<Rightarrow> (Inr table, r)
                | Some problematic_cols \<Rightarrow>
                    (case py_iter (dict_get t ''Columns'' (JArr [])) of
                       Inl e \<Rightarrow> (Inl e, r)
                     | Inr columns \<Rightarrow>
                         (case column_loop table_name problematic_cols columns r of
                            (Inl e, r') \<Rightarrow> (Inl e, r')
                          | (Inr columns', r') \<Rightarrow>
                              (Inr (JObj (store_back t ''Columns'' columns')), r'))))
           | _ \<Rightarrow> (Inr table, r))
      | _ \<Rightarrow> (Inl AttributeError, r))"

text \<open>Line 33, the outer loop over the elements of the iterable.\<close>

fun table_loop :: "json list \<Rightarrow> progress \<Rightarrow> (error + json list) \<times> progress" where
  "table_loop [] r = (Inr [], r)"
| "table_loop (table # rest) r =
     (case table_body table r of
        (Inl e, r1) \<Rightarrow> (Inl e, r1)
      | (Inr table', r1) \<Rightarrow>
          (case table_loop rest r1 of
             (Inl e, r2) \<Rightarrow> (Inl e, r2)
           | (Inr rest', r2) \<Rightarrow> (Inr (table' # rest'), r2)))"

text \<open>
  Lines 31--43 on the parsed document: the document as the loops leave it, the counter
  and the printed lines.
\<close>

definition fix_document :: "json \<Rightarrow> (error + json) \<times> progress" where
  "fix_document config =
     (let r0 = \<lparr>fixed_count = 0, printed = []\<rparr> in
      case config of
        JObj d \<Rightarrow>
          (case py_iter (dict_get d ''Tables'' (JArr [])) of
             Inl e \<Rightarrow> (Inl e, r0)
           | Inr tables \<Rightarrow>
               (case table_loop tables r0 of
                  (Inl e, r) \<Rightarrow> (Inl e, r)
                | (Inr tables', r) \<Rightarrow> (Inr (JObj (store_back d ''Tables'' tables')), r)))
      | _ \<Rightarrow> (Inl AttributeError, r0))"

subsection \<open>The file system and \<open>fix_config\<close> (lines 26--50)\<close>

text \<open>
  A file has its permissions and its content, the bytes on disk. \<open>json.load\<close> and
  \<open>json.dump\<close> belong to the standard library, not to this program, and are parameters.
  \<open>loads\<close> is what \<open>json.load\<close> does on an open file with the given content: it returns a
  document or raises an exception, \<open>JSONDecodeError\<close> for text it rejects,
  \<open>UnicodeDecodeError\<close> for bytes that are no text in the encoding of the locale,
  \<open>ValueError\<close> for an integer literal beyond the digit limit and \<open>RecursionError\<close> for
  nesting beyond the recursion limit. Which texts it accepts is the library's matter; by
  default it accepts the literals \<open>NaN\<close>, \<open>Infinity\<close> and \<open>-Infinity\<close>, which JSON does
  not have. \<open>fix_config\<close> catches nothing, so whatever is raised reaches the caller.
  \<open>dumps\<close> is the serialiser with \<open>indent=2\<close>. Opening a file for writing fails before it
  truncates when the file is not writable; a write that the device cuts short is not
  modelled.
\<close>

record file_entry =
  readable :: bool
  writable :: bool
  content :: string

record world =
  files :: "string \<Rightarrow> file_entry option"
  stdout :: "string list"

definition fix_config ::
  "(string \<Rightarrow> error + json) \<Rightarrow> (json \<Rightarrow> string) \<Rightarrow> string \<Rightarrow> world \<Rightarrow> (error + nat) \<times> world" where
  "fix_config loads dumps config_path w =
     (case files w config_path of
        None \<Rightarrow> (Inl IOError, w)
      | Some f \<Rightarrow>
          if \<not> readable f then (Inl IOError, w)
          else
            (case loads (content f) of
               Inl e \<Rightarrow> (Inl e, w)
             | Inr config \<Rightarrow>
                 (case fix_document config of
                    (Inl e, r) \<Rightarrow> (Inl e, w\<lparr>stdout := stdout w @ printed r\<rparr>)
                  | (Inr config', r) \<Rightarrow>
                      if \<not> writable f
                      then (Inl IOError, w\<lparr>stdout := stdout w @ printed r\<rparr>)
                      else
                        (Inr (fixed_count r),
                         w\<lparr>files := (files w)(config_path \<mapsto> f\<lparr>content := dumps config'\<rparr>),
                           stdout := stdout w @ printed r @
                             [''Fixed '' @ show_nat (fixed_count r) @ '' problematic columns'']\<rparr>))))"

text \<open>Lines 52--58, the script's entry point: \<open>argv\<close> is \<open>sys.argv\<close>.\<close>

definition main ::
  "(string \<Rightarrow> error + json) \<Rightarrow> (json \<Rightarrow> string) \<Rightarrow> string list \<Rightarrow> world \<Rightarrow> (error + unit) \<times> world" where
  "main loads dumps argv w =
     (let config_file = (if length argv > 1 then argv ! 1 else ''JSON/AdventureWorks2019.json'')
      in case fix_config loads dumps config_file w of
           (Inl e, w') \<Rightarrow> (Inl e, w')
         | (Inr fixed, w') \<Rightarrow>
             (Inr (), w'\<lparr>stdout := stdout w' @ [''Configuration fixed: '' @ config_file]\<rparr>))"

section \<open>Reading a document\<close>

text \<open>
  The properties below speak of the Table entries of a document, the Column entries of
  a table and the fields of an entry. \<open>field\<close> reads a field of a dict (no value has
  a field unless it is a dict), \<open>entries\<close> the list stored under a key (empty when the
  key is absent or holds something else than a list), \<open>others k\<close> the fields other than
  \<open>k\<close>, in their order and with their values.
\<close>

definition field :: "json \<Rightarrow> string \<Rightarrow> json option" where
  "field x k = (case x of JObj d \<Rightarrow> map_of d k | _ \<Rightarrow> None)"

definition entries :: "json \<Rightarrow> string \<Rightarrow> json list" where
  "entries x k = (case field x k of Some (JArr xs) \<Rightarrow> xs | _ \<Rightarrow> [])"

definition items :: "json \<Rightarrow> (string \<times> json) list" where
  "items x = (case x of JObj d \<Rightarrow> d | _ \<Rightarrow> [])"

definition others :: "string \<Rightarrow> json \<Rightarrow> (string \<times> json) list" where
  "others k x = filter (\<lambda>kv. fst kv \<noteq> k) (items x)"

definition is_dict :: "json \<Rightarrow> bool" where
  "is_dict x = (case x of JObj _ \<Rightarrow> True | _ \<Rightarrow> False)"

text \<open>
  Entries are addressed by position: the \<open>i\<close>-th table of a document and the
  \<open>j\<close>-th column of that table. \<open>position\<close> says that the document has such a
  column; the two readers are used at positions only.
\<close>

definition table_at :: "json \<Rightarrow> nat \<Rightarrow> json" where
  "table_at config i = entries config ''Tables'' ! i"

definition column_at :: "json \<Rightarrow> nat \<Rightarrow> nat \<Rightarrow> json" where
  "column_at config i j = entries (table_at config i) ''Columns'' ! j"

definition position :: "json \<Rightarrow> nat \<Rightarrow> nat \<Rightarrow> bool" where
  "position config i j \<longleftrightarrow>
     i < length (entries config ''Tables'') \<and> j < length (entries (table_at config i) ''Columns'')"

text \<open>
  The exclusion set of a table: the list the exclusion map gives for its \<open>TableName\<close>,
  if the name is a key. A column is excluded in a table when the table has an exclusion
  set and the column's \<open>ColumnName\<close> is in it.
\<close>

definition exclusion_set :: "json \<Rightarrow> string list option" where
  "exclusion_set table =
     (case field table ''TableName'' of
        Some (JStr table_name) \<Rightarrow> map_of PROBLEMATIC_COLUMNS table_name
      | _ \<Rightarrow> None)"

definition excluded :: "json \<Rightarrow> json \<Rightarrow> bool" where
  "excluded table column =
     (case exclusion_set table of
        None \<Rightarrow> False
      | Some cols \<Rightarrow>
          (case field column ''ColumnName'' of
             Some (JStr col_name) \<Rightarrow> col_name \<in> set cols
           | _ \<Rightarrow> False))"

text \<open>
  The number of (Table entry, Column entry) occurrences of a document with the column
  excluded in the table.
\<close>

definition matches :: "json \<Rightarrow> nat" where
  "matches config =
     (\<Sum>table\<leftarrow>entries config ''Tables''.
        length (filter (excluded table) (entries table ''Columns'')))"

text \<open>
  The transformation the specification describes, as a function on documents: every
  excluded column gets \<open>Enabled = false\<close>, nothing else changes. The loops are compared
  with it below.
\<close>

definition patched_column :: "json \<Rightarrow> json \<Rightarrow> json" where
  "patched_column table column =
     (case column of
        JObj c \<Rightarrow>
          if excluded table column then JObj (dict_set c ''Enabled'' (JBool False)) else column
      | _ \<Rightarrow> column)"

definition patched_table :: "json \<Rightarrow> json" where
  "patched_table table =
     (case table of
        JObj t \<Rightarrow>
          JObj (store_back t ''Columns'' (map (patched_column table) (entries table ''Columns'')))
      | _ \<Rightarrow> table)"

definition patched :: "json \<Rightarrow> json" where
  "patched config =
     (case config of
        JObj d \<Rightarrow> JObj (store_back d ''Tables'' (map patched_table (entries config ''Tables'')))
      | _ \<Rightarrow> config)"

text \<open>
  A well-formed document, after sections 3 and 4.1 of the specification: a dict whose
  \<open>Tables\<close>, when present, is a list of tables; a table is a dict whose \<open>TableName\<close>,
  when present, is a string and whose \<open>Columns\<close>, when present, is a list of dicts.
\<close>

definition well_formed_table :: "json \<Rightarrow> bool" where
  "well_formed_table table =
     (case table of
        JObj t \<Rightarrow>
          (case map_of t ''TableName'' of
             None \<Rightarrow> True | Some (JStr _) \<Rightarrow> True | Some _ \<Rightarrow> False) \<and>
          (case map_of t ''Columns'' of
             None \<Rightarrow> True | Some (JArr columns) \<Rightarrow> list_all is_dict columns | Some _ \<Rightarrow> False)
      | _ \<Rightarrow> False)"

definition well_formed :: "json \<Rightarrow> bool" where
  "well_formed config =
     (case config of
        JObj d \<Rightarrow>
          (case map_of d ''Tables'' of
             None \<Rightarrow> True
           | Some (JArr tables) \<Rightarrow> list_all well_formed_table tables
           | Some _ \<Rightarrow> False)
      | _ \<Rightarrow> False)"

section \<open>An example run\<close>

text \<open>
  A configuration with an excluded column that is enabled, one that is already disabled,
  a column outside the exclusion set and a table outside the exclusion map; and a file
  system holding it, a file without a \<open>Tables\<close> field, a file that \<open>json.load\<close> rejects,
  a file that cannot be read, a file with the literal \<open>NaN\<close>, which is not JSON and which
  \<open>json.load\<close> accepts, and a file of two bytes that are no UTF-8 text. The parser and the
  serialiser are given on these contents as the library behaves on them (in a UTF-8
  locale); \<open>nan_dumped\<close> is what \<open>json.dump\<close> with \<open>indent=2\<close> writes for \<open>nan_config\<close>.
\<close>

definition example_config :: json where
  "example_config =
     JObj [(''Database'', JStr ''AdventureWorks2019''),
       (''Tables'', JArr
         [JObj [(''TableName'', JStr ''Sales.SalesOrderDetail''),
            (''Schema'', JStr ''Sales''),
            (''Columns'', JArr
              [JObj [(''ColumnName'', JStr ''SalesOrderDetailID''), (''Enabled'', JBool True),
                 (''DataType'', JStr ''int'')],
               JObj [(''ColumnName'', JStr ''OrderQty''), (''Enabled'', JBool True)]])],
          JObj [(''TableName'', JStr ''HumanResources.Employee''),
            (''Columns'', JArr
              [JObj [(''ColumnName'', JStr ''LocationID''), (''Enabled'', JBool True)]])],
          JObj [(''TableName'', JStr ''Sales.SalesPerson''),
            (''Columns'', JArr
              [JObj [(''ColumnName'', JStr ''SalesLastYear''), (''Enabled'', JBool False)]])]])]"

definition quoted :: "string \<Rightarrow> string" where
  "quoted s = [CHR 0x22] @ s @ [CHR 0x22]"

definition nan_text :: string where
  "nan_text = ''{'' @ quoted ''Tables'' @ '': [], '' @ quoted ''x'' @ '': NaN}''"

definition nan_config :: json where
  "nan_config = JObj [(''Tables'', JArr []), (''x'', JFloat ''nan'')]"

definition nan_dumped :: string where
  "nan_dumped =
     ''{\<newline>  '' @ quoted ''Tables'' @ '': [],\<newline>  '' @ quoted ''x'' @ '': NaN\<newline>}''"

definition example_loads :: "string \<Rightarrow> error + json" where
  "example_loads bytes =
     (if bytes = ''<config>'' then Inr example_config
      else if bytes = ''{}'' then Inr (JObj [])
      else if bytes = nan_text then Inr nan_config
      else if bytes = [CHR 0xFF, CHR 0xFE] then Inl UnicodeDecodeError
      else Inl JSONDecodeError)"

definition example_dumps :: "json \<Rightarrow> string" where
  "example_dumps x =
     (if x = JObj [] then ''{}''
      else if x = nan_config then nan_dumped
      else ''<patched>'')"

definition example_world :: world where
  "example_world =
     \<lparr>files = map_of
        [(''config.json'', \<lparr>readable = True, writable = True, content = ''<config>''\<rparr>),
         (''empty.json'', \<lparr>readable = True, writable = True, content = ''{}''\<rparr>),
         (''broken.json'', \<lparr>readable = True, writable = True, content = ''{Tables''\<rparr>),
         (''secret.json'', \<lparr>readable = False, writable = False, content = ''<config>''\<rparr>),
         (''nan.json'', \<lparr>readable = True, writable = True, content = nan_text\<rparr>),
         (''binary.json'',
          \<lparr>readable = True, writable = True, content = [CHR 0xFF, CHR 0xFE]\<rparr>)],
      stdout = []\<rparr>"

section \<open>The loops compute the transformation\<close>

lemma empty_name_no_key: "map_of PROBLEMATIC_COLUMNS '''' = None"
  by (simp add: PROBLEMATIC_COLUMNS_def)

lemma empty_name_no_column:
  "map_of PROBLEMATIC_COLUMNS table_name = Some cols \<Longrightarrow> '''' \<notin> set cols"
  by (auto simp: PROBLEMATIC_COLUMNS_def split: if_splits)

lemma map_of_dict_set: "map_of (dict_set d k v) = (map_of d)(k \<mapsto> v)"
  by (induction d) auto

lemma dict_set_same: "map_of d k = Some v \<Longrightarrow> dict_set d k v = d"
  by (induction d) (auto split: if_splits)

lemma dict_set_twice: "dict_set (dict_set d k v) k v' = dict_set d k v'"
  by (induction d) auto

lemma keys_dict_set: "map_of d k = Some u \<Longrightarrow> map fst (dict_set d k v) = map fst d"
  by (induction d) (auto split: if_splits)

lemma filter_dict_set:
  "filter (\<lambda>kv. fst kv \<noteq> k) (dict_set d k v) = filter (\<lambda>kv. fst kv \<noteq> k) d"
  by (induction d) auto

lemma exclusion_set_no_empty_name: "exclusion_set table = Some cols \<Longrightarrow> '''' \<notin> set cols"
  by (auto simp: exclusion_set_def split: option.splits json.splits dest: empty_name_no_column)

lemma excluded_no_set [simp]: "exclusion_set table = None \<Longrightarrow> excluded table column = False"
  by (simp add: excluded_def)

lemma excluded_not_dict [simp]: "excluded table (JStr s) = False"
  by (simp add: excluded_def field_def split: option.splits)

lemma column_body_Inr:
  assumes "column_body table_name cols column r = (Inr column', r')"
    and "exclusion_set table = Some cols"
  shows "column' = patched_column table column"
    and "fixed_count r' = fixed_count r + (if excluded table column then 1 else 0)"
  using assms exclusion_set_no_empty_name [OF assms(2)]
  by (auto simp: column_body_def patched_column_def excluded_def field_def dict_get_def
      split: json.splits option.splits if_splits)

lemma column_loop_Inr:
  assumes "column_loop table_name cols columns r = (Inr columns', r')"
    and "exclusion_set table = Some cols"
  shows "columns' = map (patched_column table) columns \<and>
         fixed_count r' = fixed_count r + length (filter (excluded table) columns)"
  using assms(1)
proof (induction columns arbitrary: r columns' r')
  case Nil
  then show ?case by simp
next
  case (Cons column rest)
  from Cons.prems obtain column' r1 rest' where
    b: "column_body table_name cols column r = (Inr column', r1)" and
    l: "column_loop table_name cols rest r1 = (Inr rest', r')" and
    c: "columns' = column' # rest'"
    by (auto split: prod.splits sum.splits)
  from Cons.IH [OF l] column_body_Inr [OF b assms(2)] c show ?case by simp
qed

lemma store_back_entries: "store_back d k (entries (JObj d) k) = d"
  by (auto simp: store_back_def entries_def field_def dict_set_same split: option.splits json.splits)

lemma py_iter_entries:
  assumes "py_iter (dict_get d k (JArr [])) = Inr xs"
  shows "entries (JObj d) k = xs \<or>
         (entries (JObj d) k = [] \<and> (\<forall>x\<in>set xs. \<exists>s. x = JStr s) \<and> (\<forall>ys. store_back d k ys = d))"
  using assms
  by (auto simp: entries_def field_def dict_get_def store_back_def split: option.splits json.splits)

lemma patched_column_id: "exclusion_set table = None \<Longrightarrow> patched_column table column = column"
  by (simp add: patched_column_def split: json.splits)

lemma patched_table_id:
  assumes "exclusion_set table = None"
  shows "patched_table table = table"
proof -
  have "map (patched_column table) xs = xs" for xs
    using assms by (simp add: patched_column_id map_idI)
  then show ?thesis
    by (cases table) (simp_all add: patched_table_def store_back_entries)
qed

lemma filter_excluded_strs: "\<forall>x\<in>set xs. \<exists>s. x = JStr s \<Longrightarrow> filter (excluded table) xs = []"
  by (induction xs) auto

lemma table_body_Inr:
  assumes "table_body table r = (Inr table', r')"
  shows "table' = patched_table table \<and>
         fixed_count r' = fixed_count r + length (filter (excluded table) (entries table ''Columns''))"
proof -
  from assms obtain t where t: "table = JObj t"
    by (auto simp: table_body_def split: json.splits)
  show ?thesis
  proof (cases "exclusion_set table")
    case None
    then have "table' = table" "r' = r"
      using assms t empty_name_no_key
      by (auto simp: table_body_def exclusion_set_def field_def dict_get_def
          split: json.splits option.splits sum.splits prod.splits)
    with None show ?thesis by (simp add: patched_table_id)
  next
    case (Some cols)
    then obtain table_name where n: "map_of t ''TableName'' = Some (JStr table_name)"
      and m: "map_of PROBLEMATIC_COLUMNS table_name = Some cols"
      using t by (auto simp: exclusion_set_def field_def split: option.splits json.splits)
    from assms t n m obtain columns columns' where
      i: "py_iter (dict_get t ''Columns'' (JArr [])) = Inr columns" and
      l: "column_loop table_name cols columns r = (Inr columns', r')" and
      s: "table' = JObj (store_back t ''Columns'' columns')"
      by (auto simp: table_body_def dict_get_def split: sum.splits prod.splits)
    note cl = column_loop_Inr [OF l Some]
    from py_iter_entries [OF i] show ?thesis
    proof
      assume "entries (JObj t) ''Columns'' = columns"
      with cl s t show ?thesis by (simp add: patched_table_def)
    next
      assume a: "entries (JObj t) ''Columns'' = [] \<and> (\<forall>x\<in>set columns. \<exists>s. x = JStr s) \<and>
                 (\<forall>ys. store_back t ''Columns'' ys = t)"
      then have "filter (excluded table) columns = []" by (simp add: filter_excluded_strs)
      with a cl s t show ?thesis by (simp add: patched_table_def)
    qed
  qed
qed

lemma table_loop_Inr:
  "table_loop tables r = (Inr tables', r') \<Longrightarrow>
     tables' = map patched_table tables \<and>
     fixed_count r' = fixed_count r +
       (\<Sum>table\<leftarrow>tables. length (filter (excluded table) (entries table ''Columns'')))"
proof (induction tables arbitrary: r tables' r')
  case Nil
  then show ?case by simp
next
  case (Cons table rest)
  from Cons.prems obtain table' r1 rest' where
    b: "table_body table r = (Inr table', r1)" and
    l: "table_loop rest r1 = (Inr rest', r')" and
    c: "tables' = table' # rest'"
    by (auto split: prod.splits sum.splits)
  from Cons.IH [OF l] table_body_Inr [OF b] c show ?case by simp
qed

lemma entries_not_dict [simp]: "entries (JStr s) k = []"
  by (simp add: entries_def field_def)

lemma sum_matches_strs:
  "\<forall>x\<in>set xs. \<exists>s. x = JStr s \<Longrightarrow>
     (\<Sum>table\<leftarrow>xs. length (filter (excluded table) (entries table ''Columns''))) = 0"
  by (induction xs) auto

lemma fix_document_Inr:
  assumes "fix_document config = (Inr config', r)"
  shows "config' = patched config \<and> fixed_count r = matches config"
proof -
  from assms obtain d tables tables' where d: "config = JObj d" and
    i: "py_iter (dict_get d ''Tables'' (JArr [])) = Inr tables" and
    l: "table_loop tables \<lparr>fixed_count = 0, printed = []\<rparr> = (Inr tables', r)" and
    s: "config' = JObj (store_back d ''Tables'' tables')"
    by (auto simp: fix_document_def Let_def split: json.splits sum.splits prod.splits)
  note tl = table_loop_Inr [OF l]
  from py_iter_entries [OF i] show ?thesis
  proof
    assume "entries (JObj d) ''Tables'' = tables"
    with tl s d show ?thesis by (simp add: patched_def matches_def)
  next
    assume a: "entries (JObj d) ''Tables'' = [] \<and> (\<forall>x\<in>set tables. \<exists>s. x = JStr s) \<and>
               (\<forall>ys. store_back d ''Tables'' ys = d)"
    with tl s d show ?thesis by (simp add: patched_def matches_def sum_matches_strs)
  qed
qed

text \<open>What \<open>store_back\<close> leaves of a dict.\<close>

lemma map_of_store_back_other: "k' \<noteq> k \<Longrightarrow> map_of (store_back d k xs) k' = map_of d k'"
  by (simp add: store_back_def map_of_dict_set split: option.splits json.splits)

lemma map_of_store_back_same:
  "map_of (store_back d k xs) k =
     (case map_of d k of Some (JArr ys) \<Rightarrow> Some (JArr xs) | v \<Rightarrow> v)"
  by (simp add: store_back_def map_of_dict_set split: option.splits json.splits)

lemma keys_store_back: "map fst (store_back d k xs) = map fst d"
  by (simp add: store_back_def keys_dict_set split: option.splits json.splits)

lemma filter_store_back:
  "filter (\<lambda>kv. fst kv \<noteq> k) (store_back d k xs) = filter (\<lambda>kv. fst kv \<noteq> k) d"
  by (simp add: store_back_def filter_dict_set split: option.splits json.splits)

lemma store_back_twice: "store_back (store_back d k xs) k ys = store_back d k ys"
  by (simp add: store_back_def map_of_dict_set dict_set_twice split: option.splits json.splits)

lemma entries_store_back:
  "entries (JObj (store_back d k (map f (entries (JObj d) k)))) k = map f (entries (JObj d) k)"
  by (simp add: entries_def field_def map_of_store_back_same split: option.splits json.splits)

text \<open>Reading the transformed document.\<close>

lemma tables_patched: "entries (patched config) ''Tables'' = map patched_table (entries config ''Tables'')"
proof (cases config)
  case (JObj d)
  then show ?thesis by (simp add: patched_def entries_store_back)
qed (simp_all add: patched_def entries_def field_def)

lemma columns_patched_table:
  "entries (patched_table table) ''Columns'' = map (patched_column table) (entries table ''Columns'')"
proof (cases table)
  case (JObj t)
  then show ?thesis by (simp add: patched_table_def entries_store_back)
qed (simp_all add: patched_table_def entries_def field_def)

lemma field_patched: "k \<noteq> ''Tables'' \<Longrightarrow> field (patched config) k = field config k"
  by (cases config) (simp_all add: patched_def field_def map_of_store_back_other)

lemma field_patched_table: "k \<noteq> ''Columns'' \<Longrightarrow> field (patched_table table) k = field table k"
  by (cases table) (simp_all add: patched_table_def field_def map_of_store_back_other)

lemma field_patched_column:
  "k \<noteq> ''Enabled'' \<Longrightarrow> field (patched_column table column) k = field column k"
  by (cases column) (simp_all add: patched_column_def field_def map_of_dict_set)

lemma exclusion_set_patched_table: "exclusion_set (patched_table table) = exclusion_set table"
  by (simp add: exclusion_set_def field_patched_table)

lemma excluded_patched:
  "excluded (patched_table table) (patched_column table column) = excluded table column"
proof -
  have eq: "field (patched_column table column) ''ColumnName'' = field column ''ColumnName''"
    by (simp add: field_patched_column)
  show ?thesis
    by (simp only: excluded_def exclusion_set_patched_table eq)
qed

lemma excluded_is_dict: "excluded table column \<Longrightarrow> \<exists>c. column = JObj c"
  by (cases column) (auto simp: excluded_def field_def split: option.splits)

lemma enabled_patched_column_excluded:
  "excluded table column \<Longrightarrow> field (patched_column table column) ''Enabled'' = Some (JBool False)"
proof -
  assume e: "excluded table column"
  then obtain c where "column = JObj c" by (auto dest: excluded_is_dict)
  with e show ?thesis by (simp add: patched_column_def field_def map_of_dict_set)
qed

lemma patched_column_not_excluded: "\<not> excluded table column \<Longrightarrow> patched_column table column = column"
  by (cases column) (simp_all add: patched_column_def)

lemma keys_patched: "map fst (items (patched config)) = map fst (items config)"
  by (cases config) (simp_all add: patched_def items_def keys_store_back)

lemma keys_patched_table: "map fst (items (patched_table table)) = map fst (items table)"
  by (cases table) (simp_all add: patched_table_def items_def keys_store_back)

lemma others_patched: "others ''Tables'' (patched config) = others ''Tables'' config"
  by (cases config) (simp_all add: patched_def others_def items_def filter_store_back)

lemma others_patched_table: "others ''Columns'' (patched_table table) = others ''Columns'' table"
  by (cases table) (simp_all add: patched_table_def others_def items_def filter_store_back)

lemma others_patched_column:
  "others ''Enabled'' (patched_column table column) = others ''Enabled'' column"
  by (cases column) (simp_all add: patched_column_def others_def items_def filter_dict_set)

lemma patched_no_tables:
  assumes "entries config ''Tables'' = []"
  shows "patched config = config"
proof (cases config)
  case (JObj d)
  with assms store_back_entries [of d "''Tables''"] show ?thesis by (simp add: patched_def)
qed (simp_all add: patched_def)

lemma patched_table_no_columns:
  assumes "entries table ''Columns'' = []"
  shows "patched_table table = table"
proof (cases table)
  case (JObj t)
  with assms store_back_entries [of t "''Columns''"] show ?thesis by (simp add: patched_table_def)
qed (simp_all add: patched_table_def)

text \<open>The transformation applied twice.\<close>

lemma patched_column_twice:
  "patched_column (patched_table table) (patched_column table column) = patched_column table column"
proof (cases "excluded table column")
  case True
  then obtain c where "column = JObj c" by (auto dest: excluded_is_dict)
  with True excluded_patched [of table column] show ?thesis
    by (simp add: patched_column_def dict_set_twice)
next
  case False
  with excluded_patched [of table column] show ?thesis
    by (simp add: patched_column_not_excluded)
qed

lemma patched_table_twice: "patched_table (patched_table table) = patched_table table"
proof (cases table)
  case (JObj t)
  have "patched_table (patched_table table) =
        JObj (store_back (store_back t ''Columns'' (map (patched_column table) (entries table ''Columns'')))
          ''Columns'' (map (patched_column (patched_table table)) (entries (patched_table table) ''Columns'')))"
    using JObj by (simp add: patched_table_def)
  also have "map (patched_column (patched_table table)) (entries (patched_table table) ''Columns'') =
             map (patched_column table) (entries table ''Columns'')"
    by (simp add: columns_patched_table patched_column_twice)
  finally show ?thesis using JObj by (simp add: store_back_twice patched_table_def)
qed (simp_all add: patched_table_def)

lemma patched_twice: "patched (patched config) = patched config"
proof (cases config)
  case (JObj d)
  have "patched (patched config) =
        JObj (store_back (store_back d ''Tables'' (map patched_table (entries config ''Tables'')))
          ''Tables'' (map patched_table (entries (patched config) ''Tables'')))"
    using JObj by (simp add: patched_def)
  also have "map patched_table (entries (patched config) ''Tables'') =
             map patched_table (entries config ''Tables'')"
    by (simp add: tables_patched patched_table_twice)
  finally show ?thesis using JObj by (simp add: store_back_twice patched_def)
qed (simp_all add: patched_def)

section \<open>Well-formed documents and runs that return\<close>

text \<open>A run on a well-formed document raises nothing.\<close>

lemma column_loop_total:
  "list_all is_dict columns \<Longrightarrow>
     \<exists>columns' r'. column_loop table_name cols columns r = (Inr columns', r')"
proof (induction columns arbitrary: r)
  case Nil
  then show ?case by simp
next
  case (Cons column rest)
  then obtain c where c: "column = JObj c" by (cases column) (simp_all add: is_dict_def)
  have "\<exists>column' r1. column_body table_name cols column r = (Inr column', r1)"
    using c by (simp add: column_body_def split: json.splits)
  then obtain column' r1 where b: "column_body table_name cols column r = (Inr column', r1)"
    by blast
  from Cons obtain rest' r' where "column_loop table_name cols rest r1 = (Inr rest', r')"
    by fastforce
  with b show ?case by simp
qed

lemma table_body_total:
  assumes "well_formed_table table"
  shows "\<exists>table' r'. table_body table r = (Inr table', r')"
proof -
  from assms obtain t where t: "table = JObj t"
    by (cases table) (simp_all add: well_formed_table_def)
  from assms t have n: "map_of t ''TableName'' = None \<or> (\<exists>s. map_of t ''TableName'' = Some (JStr s))"
    by (auto simp: well_formed_table_def split: option.splits json.splits)
  from assms t obtain columns where
    i: "py_iter (dict_get t ''Columns'' (JArr [])) = Inr columns" and d: "list_all is_dict columns"
    by (auto simp: well_formed_table_def dict_get_def split: option.splits json.splits)
  from n obtain s where s: "dict_get t ''TableName'' (JStr '''') = JStr s"
    by (auto simp: dict_get_def)
  show ?thesis
  proof (cases "map_of PROBLEMATIC_COLUMNS s")
    case None
    with t s show ?thesis by (simp add: table_body_def)
  next
    case (Some cols)
    from column_loop_total [OF d, of s cols r] obtain columns' r' where
      "column_loop s cols columns r = (Inr columns', r')" by blast
    with t s Some i show ?thesis by (simp add: table_body_def)
  qed
qed

lemma table_loop_total:
  "list_all well_formed_table tables \<Longrightarrow> \<exists>tables' r'. table_loop tables r = (Inr tables', r')"
proof (induction tables arbitrary: r)
  case Nil
  then show ?case by simp
next
  case (Cons table rest)
  then obtain table' r1 where b: "table_body table r = (Inr table', r1)"
    using table_body_total [of table r] by auto
  from Cons obtain rest' r' where "table_loop rest r1 = (Inr rest', r')"
    by fastforce
  with b show ?case by simp
qed

lemma fix_document_total:
  assumes "well_formed config"
  shows "\<exists>r. fix_document config = (Inr (patched config), r)"
proof -
  from assms obtain d where d: "config = JObj d"
    by (cases config) (simp_all add: well_formed_def)
  from assms d obtain tables where
    i: "py_iter (dict_get d ''Tables'' (JArr [])) = Inr tables" and
    w: "list_all well_formed_table tables"
    by (auto simp: well_formed_def dict_get_def split: option.splits json.splits)
  from table_loop_total [OF w] obtain tables' r where
    "table_loop tables \<lparr>fixed_count = 0, printed = []\<rparr> = (Inr tables', r)" by blast
  with d i have "fix_document config = (Inr (JObj (store_back d ''Tables'' tables')), r)"
    by (simp add: fix_document_def)
  with fix_document_Inr show ?thesis by metis
qed

text \<open>The transformation keeps a document well-formed.\<close>

lemma is_dict_patched_column: "is_dict (patched_column table column) = is_dict column"
  by (cases column) (simp_all add: patched_column_def is_dict_def)

lemma well_formed_patched_table:
  assumes "well_formed_table table"
  shows "well_formed_table (patched_table table)"
proof -
  from assms obtain t where t: "table = JObj t"
    by (cases table) (simp_all add: well_formed_table_def)
  with assms show ?thesis
    by (auto simp: well_formed_table_def patched_table_def map_of_store_back_other
        map_of_store_back_same entries_def field_def list_all_iff is_dict_patched_column
        split: option.splits json.splits)
qed

lemma well_formed_patched:
  assumes "well_formed config"
  shows "well_formed (patched config)"
proof -
  from assms obtain d where d: "config = JObj d"
    by (cases config) (simp_all add: well_formed_def)
  with assms show ?thesis
    by (auto simp: well_formed_def patched_def map_of_store_back_same entries_def field_def
        list_all_iff well_formed_patched_table split: option.splits json.splits)
qed

text \<open>A run of \<open>fix_config\<close> that returns.\<close>

lemma fix_config_Inr:
  assumes "fix_config loads dumps config_path w = (Inr n, w')"
  shows "\<exists>f config r.
           files w config_path = Some f \<and> readable f \<and> writable f \<and>
           loads (content f) = Inr config \<and>
           fix_document config = (Inr (patched config), r) \<and>
           n = matches config \<and>
           files w' = (files w)(config_path \<mapsto> f\<lparr>content := dumps (patched config)\<rparr>)"
proof -
  from assms obtain f config config' r where
    f: "files w config_path = Some f" "readable f" "writable f" and
    l: "loads (content f) = Inr config" and
    d: "fix_document config = (Inr config', r)" and
    n: "n = fixed_count r" and
    w: "files w' = (files w)(config_path \<mapsto> f\<lparr>content := dumps config'\<rparr>)"
    by (auto simp: fix_config_def split: option.splits if_splits prod.splits sum.splits)
  from fix_document_Inr [OF d] f l d n w show ?thesis by auto
qed

text \<open>Positions of the transformed document.\<close>

lemma table_at_patched:
  "i < length (entries config ''Tables'') \<Longrightarrow>
     table_at (patched config) i = patched_table (table_at config i)"
  by (simp add: table_at_def tables_patched)

lemma position_patched: "position (patched config) i j = position config i j"
  by (auto simp: position_def tables_patched table_at_patched columns_patched_table)

lemma column_at_patched:
  "position config i j \<Longrightarrow>
     column_at (patched config) i j = patched_column (table_at config i) (column_at config i j)"
  by (simp add: position_def column_at_def table_at_patched columns_patched_table)

text \<open>The example run.\<close>

lemma example_document:
  "fix_document example_config =
     (Inr (patched example_config),
      \<lparr>fixed_count = 2,
       printed = [''Disabled Sales.SalesOrderDetail.SalesOrderDetailID'',
                  ''Disabled Sales.SalesPerson.SalesLastYear'']\<rparr>)"
  by (simp add: fix_document_def example_config_def table_body_def column_body_def dict_get_def
      store_back_def PROBLEMATIC_COLUMNS_def patched_def patched_table_def patched_column_def
      entries_def field_def excluded_def exclusion_set_def)

lemma example_run:
  "fix_config example_loads example_dumps ''config.json'' example_world =
     (Inr 2,
      \<lparr>files = (files example_world)(''config.json'' \<mapsto>
         \<lparr>readable = True, writable = True, content = example_dumps (patched example_config)\<rparr>),
       stdout = [''Disabled Sales.SalesOrderDetail.SalesOrderDetailID'',
                 ''Disabled Sales.SalesPerson.SalesLastYear'',
                 ''Fixed 2 problematic columns'']\<rparr>)"
  by (simp add: fix_config_def example_world_def example_loads_def example_document show_nat.simps)

lemma example_file:
  "files example_world ''config.json'' =
     Some \<lparr>readable = True, writable = True, content = ''<config>''\<rparr>"
  by (simp add: example_world_def)

lemma example_parse: "example_loads ''<config>'' = Inr example_config"
  by (simp add: example_loads_def)

lemma matches_patched: "matches (patched config) = matches config"
proof -
  have "length (filter (excluded (patched_table table)) (map (patched_column table) columns)) =
        length (filter (excluded table) columns)" for table columns
    by (induction columns) (simp_all add: excluded_patched)
  then show ?thesis
    by (simp add: matches_def tables_patched columns_patched_table comp_def)
qed

lemma example_positions:
  "position example_config 0 0" "position example_config 0 1" "position example_config 1 0"
  "position example_config 2 0"
  by (simp_all add: position_def table_at_def example_config_def entries_def field_def)

lemma example_excluded:
  "excluded (table_at example_config 0) (column_at example_config 0 0)"
  "\<not> excluded (table_at example_config 0) (column_at example_config 0 1)"
  "\<not> excluded (table_at example_config 1) (column_at example_config 1 0)"
  "excluded (table_at example_config 2) (column_at example_config 2 0)"
  by (simp_all add: excluded_def exclusion_set_def column_at_def table_at_def example_config_def
      entries_def field_def PROBLEMATIC_COLUMNS_def)

lemma example_enabled:
  "field (column_at example_config 0 0) ''Enabled'' = Some (JBool True)"
  "field (column_at example_config 0 1) ''Enabled'' = Some (JBool True)"
  "field (column_at example_config 1 0) ''Enabled'' = Some (JBool True)"
  "field (column_at example_config 2 0) ''Enabled'' = Some (JBool False)"
  by (simp_all add: column_at_def table_at_def example_config_def entries_def field_def)

section \<open>Properties of the program\<close>

text \<open>
  C8 (exclusion map data). The embedded exclusion map has exactly 14 entries with 14
  different table names, and each name maps to exactly the list of column names of the
  source, in the source's order. The map is a constant of the program: no function of
  the embedding takes it as a state or returns it, as no statement of the source assigns
  to it.
\<close>

theorem exclusion_map_data:
  "length PROBLEMATIC_COLUMNS = 14 \<and>
   distinct (map fst PROBLEMATIC_COLUMNS) \<and>
   map_of PROBLEMATIC_COLUMNS ''Production.WorkOrderRouting'' = Some [''LocationID''] \<and>
   map_of PROBLEMATIC_COLUMNS ''Production.ProductModel'' = Some [''CatalogDescription''] \<and>
   map_of PROBLEMATIC_COLUMNS ''Purchasing.ProductVendor'' =
     Some [''LastReceiptCost'', ''LastReceiptDate''] \<and>
   map_of PROBLEMATIC_COLUMNS ''Person.StateProvince'' =
     Some [''StateProvinceID'', ''IsOnlyStateProvinceFlag''] \<and>
   map_of PROBLEMATIC_COLUMNS ''Sales.SalesOrderDetail'' = Some [''SalesOrderDetailID''] \<and>
   map_of PROBLEMATIC_COLUMNS ''Production.ProductInventory'' = Some [''LocationID''] \<and>
   map_of PROBLEMATIC_COLUMNS ''Production.ProductDescription'' = Some [''ProductDescriptionID''] \<and>
   map_of PROBLEMATIC_COLUMNS ''Production.ProductModelProductDescriptionCulture'' =
     Some [''ProductDescriptionID''] \<and>
   map_of PROBLEMATIC_COLUMNS ''Purchasing.PurchaseOrderDetail'' = Some [''PurchaseOrderDetailID''] \<and>
   map_of PROBLEMATIC_COLUMNS ''Sales.SalesPerson'' = Some [''SalesLastYear''] \<and>
   map_of PROBLEMATIC_COLUMNS ''Sales.SalesTerritory'' = Some [''SalesLastYear'', ''CostLastYear''] \<and>
   map_of PROBLEMATIC_COLUMNS ''Purchasing.ShipMethod'' =
     Some [''ShipMethodID'', ''ShipBase'', ''ShipRate''] \<and>
   map_of PROBLEMATIC_COLUMNS ''Purchasing.PurchaseOrderHeader'' = Some [''ShipMethodID'', ''ShipDate''] \<and>
   map_of PROBLEMATIC_COLUMNS ''Sales.SalesOrderHeader'' = Some [''ShipDate'', ''ShipMethodID'']"
  by (simp add: PROBLEMATIC_COLUMNS_def)

text \<open>
  C5 (error atomicity), as amended. When the file is missing or cannot be read,
  \<open>fix_config\<close> fails with \<open>IOError\<close>. When \<open>json.load\<close> raises on the content of the
  file, \<open>JSONDecodeError\<close> (the specification's \<open>ParseError\<close>) for text it rejects, or
  \<open>UnicodeDecodeError\<close>, \<open>ValueError\<close> or \<open>RecursionError\<close>, \<open>fix_config\<close> fails with
  that exception. In both cases the world it leaves is the world it found: no file was
  written and nothing was printed.
\<close>

theorem error_atomicity:
  "(files w config_path = None \<or> (\<exists>f. files w config_path = Some f \<and> \<not> readable f)
      \<longrightarrow> fix_config loads dumps config_path w = (Inl IOError, w)) \<and>
   (\<forall>f e. files w config_path = Some f \<and> readable f \<and> loads (content f) = Inl e
      \<longrightarrow> fix_config loads dumps config_path w = (Inl e, w))"
proof (intro conjI allI impI)
  assume "files w config_path = None \<or> (\<exists>f. files w config_path = Some f \<and> \<not> readable f)"
  then show "fix_config loads dumps config_path w = (Inl IOError, w)"
    by (auto simp: fix_config_def)
next
  fix f e
  assume "files w config_path = Some f \<and> readable f \<and> loads (content f) = Inl e"
  then show "fix_config loads dumps config_path w = (Inl e, w)"
    by (simp add: fix_config_def)
qed

theorem error_atomicity_witness:
  "fix_config example_loads example_dumps ''missing.json'' example_world =
     (Inl IOError, example_world) \<and>
   fix_config example_loads example_dumps ''secret.json'' example_world =
     (Inl IOError, example_world) \<and>
   fix_config example_loads example_dumps ''broken.json'' example_world =
     (Inl JSONDecodeError, example_world) \<and>
   fix_config example_loads example_dumps ''binary.json'' example_world =
     (Inl UnicodeDecodeError, example_world)"
proof -
  have missing: "files example_world ''missing.json'' = None"
    by (simp add: example_world_def)
  have secret: "\<exists>f. files example_world ''secret.json'' = Some f \<and> \<not> readable f"
    by (simp add: example_world_def)
  have broken: "files example_world ''broken.json'' =
      Some \<lparr>readable = True, writable = True, content = ''{Tables''\<rparr>"
    by (simp add: example_world_def)
  have rejected: "example_loads ''{Tables'' = Inl JSONDecodeError"
    by (simp add: example_loads_def nan_text_def quoted_def)
  have binary: "files example_world ''binary.json'' =
      Some \<lparr>readable = True, writable = True, content = [CHR 0xFF, CHR 0xFE]\<rparr>"
    by (simp add: example_world_def)
  have no_text: "example_loads [CHR 0xFF, CHR 0xFE] = Inl UnicodeDecodeError"
    by (simp add: example_loads_def nan_text_def quoted_def)
  from missing secret broken rejected binary no_text
    error_atomicity [of example_world "''missing.json''" example_loads example_dumps]
    error_atomicity [of example_world "''secret.json''" example_loads example_dumps]
    error_atomicity [of example_world "''broken.json''" example_loads example_dumps]
    error_atomicity [of example_world "''binary.json''" example_loads example_dumps]
  show ?thesis by simp
qed

text \<open>
  As the specification words it (content that is not valid JSON makes the run fail with
  \<open>ParseError\<close>), the claim fails on two files of the example. The content of
  \<open>nan.json\<close> is not JSON, which has no \<open>NaN\<close>, and \<open>json.load\<close> returns a document for
  it: \<open>fix_config\<close> raises nothing, returns 0 and writes the file anew, with another
  content. The content of \<open>binary.json\<close> is not JSON either, and the exception that
  reaches the caller is \<open>UnicodeDecodeError\<close>, not \<open>JSONDecodeError\<close>.
\<close>

theorem error_atomicity_counterexample:
  "files example_world ''nan.json'' =
     Some \<lparr>readable = True, writable = True, content = nan_text\<rparr> \<and>
   example_loads nan_text = Inr nan_config \<and>
   fix_config example_loads example_dumps ''nan.json'' example_world =
     (Inr 0,
      example_world\<lparr>files := (files example_world)(''nan.json'' \<mapsto>
          \<lparr>readable = True, writable = True, content = nan_dumped\<rparr>),
        stdout := [''Fixed 0 problematic columns'']\<rparr>) \<and>
   nan_dumped \<noteq> nan_text \<and>
   fix_config example_loads example_dumps ''binary.json'' example_world =
     (Inl UnicodeDecodeError, example_world) \<and>
   UnicodeDecodeError \<noteq> JSONDecodeError"
proof -
  have entry: "files example_world ''nan.json'' =
      Some \<lparr>readable = True, writable = True, content = nan_text\<rparr>"
    by (simp add: example_world_def)
  have parse: "example_loads nan_text = Inr nan_config"
    by (simp add: example_loads_def nan_text_def quoted_def)
  have loops: "fix_document nan_config = (Inr nan_config, \<lparr>fixed_count = 0, printed = []\<rparr>)"
    by (simp add: fix_document_def nan_config_def dict_get_def store_back_def)
  have dump: "example_dumps nan_config = nan_dumped"
    by (simp add: example_dumps_def nan_config_def)
  have out: "stdout example_world = []"
    by (simp add: example_world_def)
  have run: "fix_config example_loads example_dumps ''nan.json'' example_world =
     (Inr 0,
      example_world\<lparr>files := (files example_world)(''nan.json'' \<mapsto>
          \<lparr>readable = True, writable = True, content = nan_dumped\<rparr>),
        stdout := [''Fixed 0 problematic columns'']\<rparr>)"
    by (simp add: fix_config_def entry parse loops dump out show_nat.simps)
  have other: "nan_dumped \<noteq> nan_text"
    by (simp add: nan_dumped_def nan_text_def quoted_def)
  have binary: "fix_config example_loads example_dumps ''binary.json'' example_world =
     (Inl UnicodeDecodeError, example_world)"
    by (simp add: fix_config_def example_world_def example_loads_def nan_text_def quoted_def)
  from entry parse run other binary show ?thesis by simp
qed

text \<open>
  C9 (missing-name tolerance). A table without \<open>TableName\<close> and a column without
  \<open>ColumnName\<close> raise no error: the name read is the empty string, the entry is left as
  it is and the counter and the output are unchanged. The empty string is no key of the
  exclusion map and is in none of its lists.
\<close>

theorem missing_name_tolerance:
  "(\<forall>t r. map_of t ''TableName'' = None \<longrightarrow>
      dict_get t ''TableName'' (JStr '''') = JStr '''' \<and>
      table_body (JObj t) r = (Inr (JObj t), r)) \<and>
   (\<forall>table_name cols c r.
      map_of PROBLEMATIC_COLUMNS table_name = Some cols \<and> map_of c ''ColumnName'' = None \<longrightarrow>
      dict_get c ''ColumnName'' (JStr '''') = JStr '''' \<and>
      column_body table_name cols (JObj c) r = (Inr (JObj c), r)) \<and>
   map_of PROBLEMATIC_COLUMNS '''' = None \<and>
   (\<forall>entry \<in> set PROBLEMATIC_COLUMNS. '''' \<notin> set (snd entry))"
proof (intro conjI allI impI)
  fix t :: dict and r
  assume "map_of t ''TableName'' = None"
  then show "dict_get t ''TableName'' (JStr '''') = JStr ''''"
    by (simp add: dict_get_def)
  then show "table_body (JObj t) r = (Inr (JObj t), r)"
    by (simp add: table_body_def empty_name_no_key)
next
  fix table_name cols and c :: dict and r
  assume a: "map_of PROBLEMATIC_COLUMNS table_name = Some cols \<and> map_of c ''ColumnName'' = None"
  then show g: "dict_get c ''ColumnName'' (JStr '''') = JStr ''''"
    by (simp add: dict_get_def)
  from a have "'''' \<notin> set cols" by (auto dest: empty_name_no_column)
  with g show "column_body table_name cols (JObj c) r = (Inr (JObj c), r)"
    by (simp add: column_body_def)
next
  show "map_of PROBLEMATIC_COLUMNS '''' = None" by (rule empty_name_no_key)
next
  show "\<forall>entry \<in> set PROBLEMATIC_COLUMNS. '''' \<notin> set (snd entry)"
    by (simp add: PROBLEMATIC_COLUMNS_def)
qed

theorem missing_name_tolerance_witness:
  "table_body (JObj [(''Columns'', JArr [JInt 1])]) \<lparr>fixed_count = 0, printed = []\<rparr> =
     (Inr (JObj [(''Columns'', JArr [JInt 1])]), \<lparr>fixed_count = 0, printed = []\<rparr>) \<and>
   column_body ''Sales.SalesPerson'' [''SalesLastYear''] (JObj [(''Enabled'', JBool True)])
       \<lparr>fixed_count = 0, printed = []\<rparr> =
     (Inr (JObj [(''Enabled'', JBool True)]), \<lparr>fixed_count = 0, printed = []\<rparr>)"
proof -
  have t: "map_of [(''Columns'', JArr [JInt 1])] ''TableName'' = None" by simp
  have c: "map_of PROBLEMATIC_COLUMNS ''Sales.SalesPerson'' = Some [''SalesLastYear''] \<and>
           map_of [(''Enabled'', JBool True)] ''ColumnName'' = None"
    by (simp add: PROBLEMATIC_COLUMNS_def)
  from t c missing_name_tolerance show ?thesis by blast
qed

text \<open>
  C1 (completeness). When \<open>fix_config\<close> returns on a file whose text parses to
  \<open>config\<close>, the document the loops leave in memory is the one it serialises into the
  file, and in that document every column that was excluded in its table in \<open>config\<close>
  is at the same position and has \<open>Enabled\<close> equal to false.
\<close>

theorem completeness:
  assumes "files w config_path = Some f"
    and "loads (content f) = Inr config"
    and "fix_config loads dumps config_path w = (Inr n, w')"
  shows "\<exists>config' r.
           fix_document config = (Inr config', r) \<and>
           files w' config_path = Some (f\<lparr>content := dumps config'\<rparr>) \<and>
           (\<forall>i j. position config i j \<and> excluded (table_at config i) (column_at config i j) \<longrightarrow>
              position config' i j \<and>
              field (column_at config' i j) ''Enabled'' = Some (JBool False))"
proof -
  from fix_config_Inr [OF assms(3)] assms(1,2) obtain r where
    d: "fix_document config = (Inr (patched config), r)" and
    w: "files w' = (files w)(config_path \<mapsto> f\<lparr>content := dumps (patched config)\<rparr>)"
    by auto
  have "position (patched config) i j \<and>
        field (column_at (patched config) i j) ''Enabled'' = Some (JBool False)"
    if "position config i j" "excluded (table_at config i) (column_at config i j)" for i j
    using that by (simp add: position_patched column_at_patched enabled_patched_column_excluded)
  with d w show ?thesis by auto
qed

theorem completeness_witness:
  "position example_config 0 0 \<and>
   excluded (table_at example_config 0) (column_at example_config 0 0) \<and>
   field (column_at example_config 0 0) ''Enabled'' = Some (JBool True) \<and>
   (\<exists>config' r.
      fix_document example_config = (Inr config', r) \<and>
      files (snd (fix_config example_loads example_dumps ''config.json'' example_world))
          ''config.json'' =
        Some \<lparr>readable = True, writable = True, content = example_dumps config'\<rparr> \<and>
      position config' 0 0 \<and>
      field (column_at config' 0 0) ''Enabled'' = Some (JBool False))"
proof -
  have parse: "example_loads (content \<lparr>readable = True, writable = True, content = ''<config>''\<rparr>) =
      Inr example_config"
    by (simp add: example_parse)
  from completeness [OF example_file parse example_run] obtain config' r where
    "fix_document example_config = (Inr config', r)" and
    "files (snd (fix_config example_loads example_dumps ''config.json'' example_world))
          ''config.json'' =
        Some \<lparr>readable = True, writable = True, content = example_dumps config'\<rparr>" and
    "\<forall>i j. position example_config i j \<and>
        excluded (table_at example_config i) (column_at example_config i j) \<longrightarrow>
      position config' i j \<and> field (column_at config' i j) ''Enabled'' = Some (JBool False)"
    by (auto simp: example_run)
  with example_positions(1) example_excluded(1) example_enabled(1) show ?thesis by blast
qed

text \<open>
  C2 (containment). For every column of every table of the input such that the table's
  name is no key of the exclusion map or the column's name is not in the table's exclusion
  set (that is, the column is not excluded in the table), the document after the run has
  the column at the same position, with the \<open>Enabled\<close> field it had before (absent if
  it was absent).
\<close>

theorem containment:
  assumes "fix_document config = (Inr config', r)"
  shows "\<forall>i j. position config i j \<and> \<not> excluded (table_at config i) (column_at config i j) \<longrightarrow>
           position config' i j \<and>
           field (column_at config' i j) ''Enabled'' = field (column_at config i j) ''Enabled''"
proof -
  from fix_document_Inr [OF assms] have "config' = patched config" by simp
  then show ?thesis
    by (simp add: position_patched column_at_patched patched_column_not_excluded)
qed

theorem containment_witness:
  "position example_config 0 1 \<and>
   \<not> excluded (table_at example_config 0) (column_at example_config 0 1) \<and>
   position (patched example_config) 0 1 \<and>
   field (column_at (patched example_config) 0 1) ''Enabled'' = Some (JBool True) \<and>
   position example_config 1 0 \<and>
   \<not> excluded (table_at example_config 1) (column_at example_config 1 0) \<and>
   position (patched example_config) 1 0 \<and>
   field (column_at (patched example_config) 1 0) ''Enabled'' = Some (JBool True)"
  using containment [OF example_document] example_positions(2,3) example_excluded(2,3)
    example_enabled(2,3)
  by simp

text \<open>
  C10 (monotone disabling). The positions whose column has \<open>Enabled\<close> equal to true
  after the run are among those where it was true before: the run sets no \<open>Enabled\<close>
  field to true.
\<close>

theorem monotone_disabling:
  assumes "fix_document config = (Inr config', r)"
  shows "{(i, j). position config' i j \<and>
            field (column_at config' i j) ''Enabled'' = Some (JBool True)} \<subseteq>
         {(i, j). position config i j \<and>
            field (column_at config i j) ''Enabled'' = Some (JBool True)}"
proof -
  from fix_document_Inr [OF assms] have p: "config' = patched config" by simp
  have "field (column_at config i j) ''Enabled'' = Some (JBool True)"
    if "position config i j"
      "field (column_at (patched config) i j) ''Enabled'' = Some (JBool True)" for i j
  proof (cases "excluded (table_at config i) (column_at config i j)")
    case True
    with that show ?thesis
      by (simp add: column_at_patched enabled_patched_column_excluded)
  next
    case False
    with that show ?thesis
      by (simp add: column_at_patched patched_column_not_excluded)
  qed
  with p show ?thesis by (auto simp: position_patched)
qed

theorem monotone_disabling_witness:
  "{(i, j). position (patched example_config) i j \<and>
      field (column_at (patched example_config) i j) ''Enabled'' = Some (JBool True)} \<subseteq>
   {(i, j). position example_config i j \<and>
      field (column_at example_config i j) ''Enabled'' = Some (JBool True)} \<and>
   (0, 0) \<in> {(i, j). position example_config i j \<and>
      field (column_at example_config i j) ''Enabled'' = Some (JBool True)}"
  using monotone_disabling [OF example_document] example_positions(1) example_enabled(1)
  by simp

text \<open>
  C4 (return value). \<open>fix_config\<close> returns the number of (table, column) occurrences
  of the input with the column excluded in the table. The number does not depend on the
  \<open>Enabled\<close> values: the document after the run, where every such column is disabled,
  has the same number of them, so a column that is already disabled is counted.
\<close>

theorem return_value:
  assumes "files w config_path = Some f"
    and "loads (content f) = Inr config"
    and "fix_config loads dumps config_path w = (Inr n, w')"
  shows "n = matches config \<and>
         (\<exists>config' r. fix_document config = (Inr config', r) \<and> matches config' = n)"
proof -
  from fix_config_Inr [OF assms(3)] assms(1,2) obtain r where
    "fix_document config = (Inr (patched config), r)" and "n = matches config"
    by auto
  then show ?thesis by (auto simp: matches_patched)
qed

theorem return_value_witness:
  "(2::nat) = matches example_config \<and>
   (\<exists>config' r. fix_document example_config = (Inr config', r) \<and> matches config' = 2)"
  using return_value [OF example_file _ example_run] example_parse by simp

text \<open>
  C3 (field preservation). After a run that returns, the document has the keys it had, in
  their order, and every top-level field other than \<open>Tables\<close> with its value; a document
  without tables is unchanged as a whole. It has as many tables, and each table has the keys
  it had and every field other than \<open>Columns\<close> with its value; a table without columns is
  unchanged as a whole. Each table has as many columns, and each column has every field
  other than \<open>Enabled\<close>, in the same order and with the same value.
\<close>

theorem field_preservation:
  assumes "fix_document config = (Inr config', r)"
  shows "map fst (items config') = map fst (items config) \<and>
         others ''Tables'' config' = others ''Tables'' config \<and>
         (entries config ''Tables'' = [] \<longrightarrow> config' = config) \<and>
         length (entries config' ''Tables'') = length (entries config ''Tables'') \<and>
         (\<forall>i < length (entries config ''Tables'').
            map fst (items (table_at config' i)) = map fst (items (table_at config i)) \<and>
            others ''Columns'' (table_at config' i) = others ''Columns'' (table_at config i) \<and>
            (entries (table_at config i) ''Columns'' = [] \<longrightarrow>
               table_at config' i = table_at config i) \<and>
            length (entries (table_at config' i) ''Columns'') =
              length (entries (table_at config i) ''Columns'')) \<and>
         (\<forall>i j. position config i j \<longrightarrow>
            others ''Enabled'' (column_at config' i j) = others ''Enabled'' (column_at config i j))"
proof -
  from fix_document_Inr [OF assms] have p: "config' = patched config" by simp
  have top: "map fst (items (patched config)) = map fst (items config) \<and>
             others ''Tables'' (patched config) = others ''Tables'' config \<and>
             (entries config ''Tables'' = [] \<longrightarrow> patched config = config) \<and>
             length (entries (patched config) ''Tables'') = length (entries config ''Tables'')"
    by (simp add: keys_patched others_patched patched_no_tables tables_patched)
  have tab: "map fst (items (table_at (patched config) i)) = map fst (items (table_at config i)) \<and>
             others ''Columns'' (table_at (patched config) i) = others ''Columns'' (table_at config i) \<and>
             (entries (table_at config i) ''Columns'' = [] \<longrightarrow>
                table_at (patched config) i = table_at config i) \<and>
             length (entries (table_at (patched config) i) ''Columns'') =
               length (entries (table_at config i) ''Columns'')"
    if "i < length (entries config ''Tables'')" for i
    using that
    by (simp add: table_at_patched keys_patched_table others_patched_table
        patched_table_no_columns columns_patched_table)
  have col: "others ''Enabled'' (column_at (patched config) i j) =
             others ''Enabled'' (column_at config i j)"
    if "position config i j" for i j
    using that by (simp add: column_at_patched others_patched_column)
  from p top tab col show ?thesis by simp
qed

theorem field_preservation_witness:
  "map fst (items (patched example_config)) = [''Database'', ''Tables''] \<and>
   others ''Tables'' (patched example_config) = [(''Database'', JStr ''AdventureWorks2019'')] \<and>
   others ''Columns'' (table_at (patched example_config) 0) =
     [(''TableName'', JStr ''Sales.SalesOrderDetail''), (''Schema'', JStr ''Sales'')] \<and>
   others ''Enabled'' (column_at (patched example_config) 0 0) =
     [(''ColumnName'', JStr ''SalesOrderDetailID''), (''DataType'', JStr ''int'')]"
proof -
  have t: "0 < length (entries example_config ''Tables'')"
    by (simp add: example_config_def entries_def field_def)
  have c: "position example_config 0 0"
    by (simp add: position_def table_at_def example_config_def entries_def field_def)
  from field_preservation [OF example_document] t c
  have "map fst (items (patched example_config)) = map fst (items example_config) \<and>
        others ''Tables'' (patched example_config) = others ''Tables'' example_config \<and>
        others ''Columns'' (table_at (patched example_config) 0) =
          others ''Columns'' (table_at example_config 0) \<and>
        others ''Enabled'' (column_at (patched example_config) 0 0) =
          others ''Enabled'' (column_at example_config 0 0)"
    by blast
  then show ?thesis
    by (simp add: example_config_def items_def others_def column_at_def table_at_def
        entries_def field_def)
qed

text \<open>
  C6 (idempotence). On a well-formed document the loops return a document, and run on
  that document they return it again: a second run changes nothing.
\<close>

theorem idempotence:
  assumes "well_formed config"
  shows "\<exists>config' r r'.
           fix_document config = (Inr config', r) \<and> fix_document config' = (Inr config', r')"
proof -
  from fix_document_total [OF assms] obtain r where
    1: "fix_document config = (Inr (patched config), r)" by blast
  from fix_document_total [OF well_formed_patched [OF assms]] obtain r' where
    "fix_document (patched config) = (Inr (patched (patched config)), r')" by blast
  then have "fix_document (patched config) = (Inr (patched config), r')"
    by (simp add: patched_twice)
  with 1 show ?thesis by blast
qed

theorem idempotence_witness:
  "\<exists>config' r r'.
     fix_document example_config = (Inr config', r) \<and> fix_document config' = (Inr config', r')"
proof -
  have "well_formed example_config"
    by (simp add: well_formed_def well_formed_table_def is_dict_def example_config_def)
  then show ?thesis by (rule idempotence)
qed



end
